theory Spec2Isabelle
  imports Main "HOL-Library.Char_ord" "HOL-Library.Sublist"
begin

section \<open>The generated tables of the SysML parser\<close>

text \<open>
  The repository holds two generated tree-sitter parsers for the same language:
  \<^verbatim>\<open>sysml-ts/tree-sitter/src/parser.c\<close> (the full grammar, 222 symbols) and
  \<^verbatim>\<open>sysml-lsp-zed-extension/grammars/tree-sitter-sysml/src/parser.c\<close> (an earlier,
  smaller grammar, 37 symbols). Each file is a set of static tables and two lexing
  functions, \<^verbatim>\<open>ts_lex\<close> and \<^verbatim>\<open>ts_lex_keywords\<close>. This theory transcribes the
  tables and the two functions of the full grammar, case by case and row by row, and
  the main lexing function of the smaller one.

  Characters are Isabelle's 8-bit \<^typ>\<open>char\<close>; the input is a \<^typ>\<open>string\<close>; symbols,
  lexer states and parser states are natural numbers, named as in the C enumerations.
\<close>

named_theorems sym_def \<open>the numeric values of the symbol, field and size constants\<close>

subsection \<open>Symbols\<close>

definition ts_builtin_sym_end :: nat where [sym_def]: "ts_builtin_sym_end = 0"

definition STATE_COUNT :: nat where [sym_def]: "STATE_COUNT = 65"
definition LARGE_STATE_COUNT :: nat where [sym_def]: "LARGE_STATE_COUNT = 2"
definition SYMBOL_COUNT :: nat where [sym_def]: "SYMBOL_COUNT = 222"
definition TOKEN_COUNT :: nat where [sym_def]: "TOKEN_COUNT = 206"
definition FIELD_COUNT :: nat where [sym_def]: "FIELD_COUNT = 3"
definition PRODUCTION_ID_COUNT :: nat where [sym_def]: "PRODUCTION_ID_COUNT = 5"

definition sym_identifier :: nat where [sym_def]: "sym_identifier = 1"
definition anon_sym_LBRACE :: nat where [sym_def]: "anon_sym_LBRACE = 2"
definition anon_sym_RBRACE :: nat where [sym_def]: "anon_sym_RBRACE = 3"
definition anon_sym_package :: nat where [sym_def]: "anon_sym_package = 4"
definition anon_sym_import :: nat where [sym_def]: "anon_sym_import = 5"
definition anon_sym_SEMI :: nat where [sym_def]: "anon_sym_SEMI = 6"
definition sym_import_path :: nat where [sym_def]: "sym_import_path = 7"
definition anon_sym_part :: nat where [sym_def]: "anon_sym_part = 8"
definition anon_sym_def :: nat where [sym_def]: "anon_sym_def = 9"
definition anon_sym_attribute :: nat where [sym_def]: "anon_sym_attribute = 10"
definition anon_sym_action :: nat where [sym_def]: "anon_sym_action = 11"
definition anon_sym_state :: nat where [sym_def]: "anon_sym_state = 12"
definition anon_sym_interface :: nat where [sym_def]: "anon_sym_interface = 13"
definition anon_sym_port :: nat where [sym_def]: "anon_sym_port = 14"
definition anon_sym_requirement :: nat where [sym_def]: "anon_sym_requirement = 15"
definition anon_sym_constraint :: nat where [sym_def]: "anon_sym_constraint = 16"
definition anon_sym_enum :: nat where [sym_def]: "anon_sym_enum = 17"
definition anon_sym_type :: nat where [sym_def]: "anon_sym_type = 18"
definition anon_sym_COLON :: nat where [sym_def]: "anon_sym_COLON = 19"
definition anon_sym_COLON_COLON :: nat where [sym_def]: "anon_sym_COLON_COLON = 20"
definition sym_string :: nat where [sym_def]: "sym_string = 21"
definition sym_number :: nat where [sym_def]: "sym_number = 22"
definition anon_sym_true :: nat where [sym_def]: "anon_sym_true = 23"
definition anon_sym_false :: nat where [sym_def]: "anon_sym_false = 24"
definition anon_sym_null :: nat where [sym_def]: "anon_sym_null = 25"
definition anon_sym_about :: nat where [sym_def]: "anon_sym_about = 26"
definition anon_sym_abstract :: nat where [sym_def]: "anon_sym_abstract = 27"
definition anon_sym_accept :: nat where [sym_def]: "anon_sym_accept = 28"
definition anon_sym_actor :: nat where [sym_def]: "anon_sym_actor = 29"
definition anon_sym_after :: nat where [sym_def]: "anon_sym_after = 30"
definition anon_sym_alias :: nat where [sym_def]: "anon_sym_alias = 31"
definition anon_sym_all :: nat where [sym_def]: "anon_sym_all = 32"
definition anon_sym_allocate :: nat where [sym_def]: "anon_sym_allocate = 33"
definition anon_sym_allocation :: nat where [sym_def]: "anon_sym_allocation = 34"
definition anon_sym_analysis :: nat where [sym_def]: "anon_sym_analysis = 35"
definition anon_sym_and :: nat where [sym_def]: "anon_sym_and = 36"
definition anon_sym_as :: nat where [sym_def]: "anon_sym_as = 37"
definition anon_sym_assert :: nat where [sym_def]: "anon_sym_assert = 38"
definition anon_sym_assign :: nat where [sym_def]: "anon_sym_assign = 39"
definition anon_sym_assoc :: nat where [sym_def]: "anon_sym_assoc = 40"
definition anon_sym_assume :: nat where [sym_def]: "anon_sym_assume = 41"
definition anon_sym_at :: nat where [sym_def]: "anon_sym_at = 42"
definition anon_sym_behavior :: nat where [sym_def]: "anon_sym_behavior = 43"
definition anon_sym_bind :: nat where [sym_def]: "anon_sym_bind = 44"
definition anon_sym_binding :: nat where [sym_def]: "anon_sym_binding = 45"
definition anon_sym_bool :: nat where [sym_def]: "anon_sym_bool = 46"
definition anon_sym_by :: nat where [sym_def]: "anon_sym_by = 47"
definition anon_sym_calc :: nat where [sym_def]: "anon_sym_calc = 48"
definition anon_sym_case :: nat where [sym_def]: "anon_sym_case = 49"
definition anon_sym_chains :: nat where [sym_def]: "anon_sym_chains = 50"
definition anon_sym_class :: nat where [sym_def]: "anon_sym_class = 51"
definition anon_sym_classifier :: nat where [sym_def]: "anon_sym_classifier = 52"
definition anon_sym_comment :: nat where [sym_def]: "anon_sym_comment = 53"
definition anon_sym_composite :: nat where [sym_def]: "anon_sym_composite = 54"
definition anon_sym_concern :: nat where [sym_def]: "anon_sym_concern = 55"
definition anon_sym_conjugate :: nat where [sym_def]: "anon_sym_conjugate = 56"
definition anon_sym_conjugates :: nat where [sym_def]: "anon_sym_conjugates = 57"
definition anon_sym_conjugation :: nat where [sym_def]: "anon_sym_conjugation = 58"
definition anon_sym_connect :: nat where [sym_def]: "anon_sym_connect = 59"
definition anon_sym_connection :: nat where [sym_def]: "anon_sym_connection = 60"
definition anon_sym_connector :: nat where [sym_def]: "anon_sym_connector = 61"
definition anon_sym_const :: nat where [sym_def]: "anon_sym_const = 62"
definition anon_sym_constant :: nat where [sym_def]: "anon_sym_constant = 63"
definition anon_sym_crosses :: nat where [sym_def]: "anon_sym_crosses = 64"
definition anon_sym_datatype :: nat where [sym_def]: "anon_sym_datatype = 65"
definition anon_sym_decide :: nat where [sym_def]: "anon_sym_decide = 66"
definition anon_sym_default :: nat where [sym_def]: "anon_sym_default = 67"
definition anon_sym_defined :: nat where [sym_def]: "anon_sym_defined = 68"
definition anon_sym_dependency :: nat where [sym_def]: "anon_sym_dependency = 69"
definition anon_sym_derived :: nat where [sym_def]: "anon_sym_derived = 70"
definition anon_sym_differences :: nat where [sym_def]: "anon_sym_differences = 71"
definition anon_sym_disjoining :: nat where [sym_def]: "anon_sym_disjoining = 72"
definition anon_sym_disjoint :: nat where [sym_def]: "anon_sym_disjoint = 73"
definition anon_sym_do :: nat where [sym_def]: "anon_sym_do = 74"
definition anon_sym_doc :: nat where [sym_def]: "anon_sym_doc = 75"
definition anon_sym_else :: nat where [sym_def]: "anon_sym_else = 76"
definition anon_sym_end :: nat where [sym_def]: "anon_sym_end = 77"
definition anon_sym_entry :: nat where [sym_def]: "anon_sym_entry = 78"
definition anon_sym_event :: nat where [sym_def]: "anon_sym_event = 79"
definition anon_sym_exhibit :: nat where [sym_def]: "anon_sym_exhibit = 80"
definition anon_sym_exit :: nat where [sym_def]: "anon_sym_exit = 81"
definition anon_sym_expose :: nat where [sym_def]: "anon_sym_expose = 82"
definition anon_sym_expr :: nat where [sym_def]: "anon_sym_expr = 83"
definition anon_sym_feature :: nat where [sym_def]: "anon_sym_feature = 84"
definition anon_sym_featured :: nat where [sym_def]: "anon_sym_featured = 85"
definition anon_sym_featuring :: nat where [sym_def]: "anon_sym_featuring = 86"
definition anon_sym_filter :: nat where [sym_def]: "anon_sym_filter = 87"
definition anon_sym_first :: nat where [sym_def]: "anon_sym_first = 88"
definition anon_sym_flow :: nat where [sym_def]: "anon_sym_flow = 89"
definition anon_sym_for :: nat where [sym_def]: "anon_sym_for = 90"
definition anon_sym_fork :: nat where [sym_def]: "anon_sym_fork = 91"
definition anon_sym_frame :: nat where [sym_def]: "anon_sym_frame = 92"
definition anon_sym_from :: nat where [sym_def]: "anon_sym_from = 93"
definition anon_sym_function :: nat where [sym_def]: "anon_sym_function = 94"
definition anon_sym_hastype :: nat where [sym_def]: "anon_sym_hastype = 95"
definition anon_sym_if :: nat where [sym_def]: "anon_sym_if = 96"
definition anon_sym_implies :: nat where [sym_def]: "anon_sym_implies = 97"
definition anon_sym_in :: nat where [sym_def]: "anon_sym_in = 98"
definition anon_sym_include :: nat where [sym_def]: "anon_sym_include = 99"
definition anon_sym_individual :: nat where [sym_def]: "anon_sym_individual = 100"
definition anon_sym_inout :: nat where [sym_def]: "anon_sym_inout = 101"
definition anon_sym_interaction :: nat where [sym_def]: "anon_sym_interaction = 102"
definition anon_sym_intersects :: nat where [sym_def]: "anon_sym_intersects = 103"
definition anon_sym_inv :: nat where [sym_def]: "anon_sym_inv = 104"
definition anon_sym_inverse :: nat where [sym_def]: "anon_sym_inverse = 105"
definition anon_sym_inverting :: nat where [sym_def]: "anon_sym_inverting = 106"
definition anon_sym_istype :: nat where [sym_def]: "anon_sym_istype = 107"
definition anon_sym_item :: nat where [sym_def]: "anon_sym_item = 108"
definition anon_sym_join :: nat where [sym_def]: "anon_sym_join = 109"
definition anon_sym_language :: nat where [sym_def]: "anon_sym_language = 110"
definition anon_sym_library :: nat where [sym_def]: "anon_sym_library = 111"
definition anon_sym_locale :: nat where [sym_def]: "anon_sym_locale = 112"
definition anon_sym_loop :: nat where [sym_def]: "anon_sym_loop = 113"
definition anon_sym_member :: nat where [sym_def]: "anon_sym_member = 114"
definition anon_sym_merge :: nat where [sym_def]: "anon_sym_merge = 115"
definition anon_sym_message :: nat where [sym_def]: "anon_sym_message = 116"
definition anon_sym_meta :: nat where [sym_def]: "anon_sym_meta = 117"
definition anon_sym_metaclass :: nat where [sym_def]: "anon_sym_metaclass = 118"
definition anon_sym_metadata :: nat where [sym_def]: "anon_sym_metadata = 119"
definition anon_sym_multiplicity :: nat where [sym_def]: "anon_sym_multiplicity = 120"
definition anon_sym_namespace :: nat where [sym_def]: "anon_sym_namespace = 121"
definition anon_sym_new :: nat where [sym_def]: "anon_sym_new = 122"
definition anon_sym_nonunique :: nat where [sym_def]: "anon_sym_nonunique = 123"
definition anon_sym_not :: nat where [sym_def]: "anon_sym_not = 124"
definition anon_sym_objective :: nat where [sym_def]: "anon_sym_objective = 125"
definition anon_sym_occurrence :: nat where [sym_def]: "anon_sym_occurrence = 126"
definition anon_sym_of :: nat where [sym_def]: "anon_sym_of = 127"
definition anon_sym_or :: nat where [sym_def]: "anon_sym_or = 128"
definition anon_sym_ordered :: nat where [sym_def]: "anon_sym_ordered = 129"
definition anon_sym_out :: nat where [sym_def]: "anon_sym_out = 130"
definition anon_sym_parallel :: nat where [sym_def]: "anon_sym_parallel = 131"
definition anon_sym_perform :: nat where [sym_def]: "anon_sym_perform = 132"
definition anon_sym_portion :: nat where [sym_def]: "anon_sym_portion = 133"
definition anon_sym_predicate :: nat where [sym_def]: "anon_sym_predicate = 134"
definition anon_sym_private :: nat where [sym_def]: "anon_sym_private = 135"
definition anon_sym_protected :: nat where [sym_def]: "anon_sym_protected = 136"
definition anon_sym_public :: nat where [sym_def]: "anon_sym_public = 137"
definition anon_sym_readonly :: nat where [sym_def]: "anon_sym_readonly = 138"
definition anon_sym_redefines :: nat where [sym_def]: "anon_sym_redefines = 139"
definition anon_sym_redefinition :: nat where [sym_def]: "anon_sym_redefinition = 140"
definition anon_sym_ref :: nat where [sym_def]: "anon_sym_ref = 141"
definition anon_sym_references :: nat where [sym_def]: "anon_sym_references = 142"
definition anon_sym_render :: nat where [sym_def]: "anon_sym_render = 143"
definition anon_sym_rendering :: nat where [sym_def]: "anon_sym_rendering = 144"
definition anon_sym_rep :: nat where [sym_def]: "anon_sym_rep = 145"
definition anon_sym_require :: nat where [sym_def]: "anon_sym_require = 146"
definition anon_sym_return :: nat where [sym_def]: "anon_sym_return = 147"
definition anon_sym_satisfy :: nat where [sym_def]: "anon_sym_satisfy = 148"
definition anon_sym_send :: nat where [sym_def]: "anon_sym_send = 149"
definition anon_sym_snapshot :: nat where [sym_def]: "anon_sym_snapshot = 150"
definition anon_sym_specialization :: nat where [sym_def]: "anon_sym_specialization = 151"
definition anon_sym_specializes :: nat where [sym_def]: "anon_sym_specializes = 152"
definition anon_sym_stakeholder :: nat where [sym_def]: "anon_sym_stakeholder = 153"
definition anon_sym_standard :: nat where [sym_def]: "anon_sym_standard = 154"
definition anon_sym_step :: nat where [sym_def]: "anon_sym_step = 155"
definition anon_sym_struct :: nat where [sym_def]: "anon_sym_struct = 156"
definition anon_sym_subclassifier :: nat where [sym_def]: "anon_sym_subclassifier = 157"
definition anon_sym_subject :: nat where [sym_def]: "anon_sym_subject = 158"
definition anon_sym_subset :: nat where [sym_def]: "anon_sym_subset = 159"
definition anon_sym_subsets :: nat where [sym_def]: "anon_sym_subsets = 160"
definition anon_sym_subtype :: nat where [sym_def]: "anon_sym_subtype = 161"
definition anon_sym_succession :: nat where [sym_def]: "anon_sym_succession = 162"
definition anon_sym_terminate :: nat where [sym_def]: "anon_sym_terminate = 163"
definition anon_sym_then :: nat where [sym_def]: "anon_sym_then = 164"
definition anon_sym_timeslice :: nat where [sym_def]: "anon_sym_timeslice = 165"
definition anon_sym_to :: nat where [sym_def]: "anon_sym_to = 166"
definition anon_sym_transition :: nat where [sym_def]: "anon_sym_transition = 167"
definition anon_sym_typed :: nat where [sym_def]: "anon_sym_typed = 168"
definition anon_sym_typing :: nat where [sym_def]: "anon_sym_typing = 169"
definition anon_sym_unions :: nat where [sym_def]: "anon_sym_unions = 170"
definition anon_sym_until :: nat where [sym_def]: "anon_sym_until = 171"
definition anon_sym_use :: nat where [sym_def]: "anon_sym_use = 172"
definition anon_sym_var :: nat where [sym_def]: "anon_sym_var = 173"
definition anon_sym_variant :: nat where [sym_def]: "anon_sym_variant = 174"
definition anon_sym_variation :: nat where [sym_def]: "anon_sym_variation = 175"
definition anon_sym_verification :: nat where [sym_def]: "anon_sym_verification = 176"
definition anon_sym_verify :: nat where [sym_def]: "anon_sym_verify = 177"
definition anon_sym_via :: nat where [sym_def]: "anon_sym_via = 178"
definition anon_sym_view :: nat where [sym_def]: "anon_sym_view = 179"
definition anon_sym_viewpoint :: nat where [sym_def]: "anon_sym_viewpoint = 180"
definition anon_sym_when :: nat where [sym_def]: "anon_sym_when = 181"
definition anon_sym_while :: nat where [sym_def]: "anon_sym_while = 182"
definition anon_sym_xor :: nat where [sym_def]: "anon_sym_xor = 183"
definition anon_sym_EQ_EQ_EQ :: nat where [sym_def]: "anon_sym_EQ_EQ_EQ = 184"
definition anon_sym_BANG_EQ_EQ :: nat where [sym_def]: "anon_sym_BANG_EQ_EQ = 185"
definition anon_sym_QMARK_QMARK :: nat where [sym_def]: "anon_sym_QMARK_QMARK = 186"
definition anon_sym_EQ_EQ :: nat where [sym_def]: "anon_sym_EQ_EQ = 187"
definition anon_sym_BANG_EQ :: nat where [sym_def]: "anon_sym_BANG_EQ = 188"
definition anon_sym_AT_AT :: nat where [sym_def]: "anon_sym_AT_AT = 189"
definition anon_sym_LT_EQ :: nat where [sym_def]: "anon_sym_LT_EQ = 190"
definition anon_sym_GT_EQ :: nat where [sym_def]: "anon_sym_GT_EQ = 191"
definition anon_sym_STAR_STAR :: nat where [sym_def]: "anon_sym_STAR_STAR = 192"
definition anon_sym_PIPE :: nat where [sym_def]: "anon_sym_PIPE = 193"
definition anon_sym_AMP :: nat where [sym_def]: "anon_sym_AMP = 194"
definition anon_sym_AT :: nat where [sym_def]: "anon_sym_AT = 195"
definition anon_sym_LT :: nat where [sym_def]: "anon_sym_LT = 196"
definition anon_sym_GT :: nat where [sym_def]: "anon_sym_GT = 197"
definition anon_sym_PLUS :: nat where [sym_def]: "anon_sym_PLUS = 198"
definition anon_sym_DASH :: nat where [sym_def]: "anon_sym_DASH = 199"
definition anon_sym_STAR :: nat where [sym_def]: "anon_sym_STAR = 200"
definition anon_sym_SLASH :: nat where [sym_def]: "anon_sym_SLASH = 201"
definition anon_sym_PERCENT :: nat where [sym_def]: "anon_sym_PERCENT = 202"
definition anon_sym_CARET :: nat where [sym_def]: "anon_sym_CARET = 203"
definition anon_sym_TILDE :: nat where [sym_def]: "anon_sym_TILDE = 204"
definition sym_comment :: nat where [sym_def]: "sym_comment = 205"
definition sym_source_file :: nat where [sym_def]: "sym_source_file = 206"
definition sym__statement :: nat where [sym_def]: "sym__statement = 207"
definition sym_block :: nat where [sym_def]: "sym_block = 208"
definition sym_package_decl :: nat where [sym_def]: "sym_package_decl = 209"
definition sym_import_decl :: nat where [sym_def]: "sym_import_decl = 210"
definition sym_part_def :: nat where [sym_def]: "sym_part_def = 211"
definition sym_part_usage :: nat where [sym_def]: "sym_part_usage = 212"
definition sym_attribute_def :: nat where [sym_def]: "sym_attribute_def = 213"
definition sym_attribute_usage :: nat where [sym_def]: "sym_attribute_usage = 214"
definition sym_definition :: nat where [sym_def]: "sym_definition = 215"
definition sym_usage :: nat where [sym_def]: "sym_usage = 216"
definition sym_typing :: nat where [sym_def]: "sym_typing = 217"
definition sym_type_ref :: nat where [sym_def]: "sym_type_ref = 218"
definition sym_qualified_name :: nat where [sym_def]: "sym_qualified_name = 219"
definition aux_sym_source_file_repeat1 :: nat where [sym_def]: "aux_sym_source_file_repeat1 = 220"
definition aux_sym_qualified_name_repeat1 :: nat where [sym_def]: "aux_sym_qualified_name_repeat1 = 221"
definition keyword_capture_token :: nat where [sym_def]: "keyword_capture_token = sym_identifier"

subsection \<open>Symbol names and metadata\<close>

text \<open>
  \<^verbatim>\<open>ts_symbol_names\<close> and \<^verbatim>\<open>ts_symbol_metadata\<close>, one row per symbol in the order of
  the C arrays. The name of an anonymous terminal is its text.
\<close>

record symbol_metadata =
  visible :: bool
  named :: bool

definition ts_symbol_names :: "(nat \<times> string) list" where
  "ts_symbol_names = [
    (ts_builtin_sym_end, ''end''),
    (sym_identifier, ''identifier''),
    (anon_sym_LBRACE, ''{''),
    (anon_sym_RBRACE, ''}''),
    (anon_sym_package, ''package''),
    (anon_sym_import, ''import''),
    (anon_sym_SEMI, '';''),
    (sym_import_path, ''import_path''),
    (anon_sym_part, ''part''),
    (anon_sym_def, ''def''),
    (anon_sym_attribute, ''attribute''),
    (anon_sym_action, ''action''),
    (anon_sym_state, ''state''),
    (anon_sym_interface, ''interface''),
    (anon_sym_port, ''port''),
    (anon_sym_requirement, ''requirement''),
    (anon_sym_constraint, ''constraint''),
    (anon_sym_enum, ''enum''),
    (anon_sym_type, ''type''),
    (anon_sym_COLON, '':''),
    (anon_sym_COLON_COLON, ''::''),
    (sym_string, ''string''),
    (sym_number, ''number''),
    (anon_sym_true, ''true''),
    (anon_sym_false, ''false''),
    (anon_sym_null, ''null''),
    (anon_sym_about, ''about''),
    (anon_sym_abstract, ''abstract''),
    (anon_sym_accept, ''accept''),
    (anon_sym_actor, ''actor''),
    (anon_sym_after, ''after''),
    (anon_sym_alias, ''alias''),
    (anon_sym_all, ''all''),
    (anon_sym_allocate, ''allocate''),
    (anon_sym_allocation, ''allocation''),
    (anon_sym_analysis, ''analysis''),
    (anon_sym_and, ''and''),
    (anon_sym_as, ''as''),
    (anon_sym_assert, ''assert''),
    (anon_sym_assign, ''assign''),
    (anon_sym_assoc, ''assoc''),
    (anon_sym_assume, ''assume''),
    (anon_sym_at, ''at''),
    (anon_sym_behavior, ''behavior''),
    (anon_sym_bind, ''bind''),
    (anon_sym_binding, ''binding''),
    (anon_sym_bool, ''bool''),
    (anon_sym_by, ''by''),
    (anon_sym_calc, ''calc''),
    (anon_sym_case, ''case''),
    (anon_sym_chains, ''chains''),
    (anon_sym_class, ''class''),
    (anon_sym_classifier, ''classifier''),
    (anon_sym_comment, ''comment''),
    (anon_sym_composite, ''composite''),
    (anon_sym_concern, ''concern''),
    (anon_sym_conjugate, ''conjugate''),
    (anon_sym_conjugates, ''conjugates''),
    (anon_sym_conjugation, ''conjugation''),
    (anon_sym_connect, ''connect''),
    (anon_sym_connection, ''connection''),
    (anon_sym_connector, ''connector''),
    (anon_sym_const, ''const''),
    (anon_sym_constant, ''constant''),
    (anon_sym_crosses, ''crosses''),
    (anon_sym_datatype, ''datatype''),
    (anon_sym_decide, ''decide''),
    (anon_sym_default, ''default''),
    (anon_sym_defined, ''defined''),
    (anon_sym_dependency, ''dependency''),
    (anon_sym_derived, ''derived''),
    (anon_sym_differences, ''differences''),
    (anon_sym_disjoining, ''disjoining''),
    (anon_sym_disjoint, ''disjoint''),
    (anon_sym_do, ''do''),
    (anon_sym_doc, ''doc''),
    (anon_sym_else, ''else''),
    (anon_sym_end, ''end''),
    (anon_sym_entry, ''entry''),
    (anon_sym_event, ''event''),
    (anon_sym_exhibit, ''exhibit''),
    (anon_sym_exit, ''exit''),
    (anon_sym_expose, ''expose''),
    (anon_sym_expr, ''expr''),
    (anon_sym_feature, ''feature''),
    (anon_sym_featured, ''featured''),
    (anon_sym_featuring, ''featuring''),
    (anon_sym_filter, ''filter''),
    (anon_sym_first, ''first''),
    (anon_sym_flow, ''flow''),
    (anon_sym_for, ''for''),
    (anon_sym_fork, ''fork''),
    (anon_sym_frame, ''frame''),
    (anon_sym_from, ''from''),
    (anon_sym_function, ''function''),
    (anon_sym_hastype, ''hastype''),
    (anon_sym_if, ''if''),
    (anon_sym_implies, ''implies''),
    (anon_sym_in, ''in''),
    (anon_sym_include, ''include''),
    (anon_sym_individual, ''individual''),
    (anon_sym_inout, ''inout''),
    (anon_sym_interaction, ''interaction''),
    (anon_sym_intersects, ''intersects''),
    (anon_sym_inv, ''inv''),
    (anon_sym_inverse, ''inverse''),
    (anon_sym_inverting, ''inverting''),
    (anon_sym_istype, ''istype''),
    (anon_sym_item, ''item''),
    (anon_sym_join, ''join''),
    (anon_sym_language, ''language''),
    (anon_sym_library, ''library''),
    (anon_sym_locale, ''locale''),
    (anon_sym_loop, ''loop''),
    (anon_sym_member, ''member''),
    (anon_sym_merge, ''merge''),
    (anon_sym_message, ''message''),
    (anon_sym_meta, ''meta''),
    (anon_sym_metaclass, ''metaclass''),
    (anon_sym_metadata, ''metadata''),
    (anon_sym_multiplicity, ''multiplicity''),
    (anon_sym_namespace, ''namespace''),
    (anon_sym_new, ''new''),
    (anon_sym_nonunique, ''nonunique''),
    (anon_sym_not, ''not''),
    (anon_sym_objective, ''objective''),
    (anon_sym_occurrence, ''occurrence''),
    (anon_sym_of, ''of''),
    (anon_sym_or, ''or''),
    (anon_sym_ordered, ''ordered''),
    (anon_sym_out, ''out''),
    (anon_sym_parallel, ''parallel''),
    (anon_sym_perform, ''perform''),
    (anon_sym_portion, ''portion''),
    (anon_sym_predicate, ''predicate''),
    (anon_sym_private, ''private''),
    (anon_sym_protected, ''protected''),
    (anon_sym_public, ''public''),
    (anon_sym_readonly, ''readonly''),
    (anon_sym_redefines, ''redefines''),
    (anon_sym_redefinition, ''redefinition''),
    (anon_sym_ref, ''ref''),
    (anon_sym_references, ''references''),
    (anon_sym_render, ''render''),
    (anon_sym_rendering, ''rendering''),
    (anon_sym_rep, ''rep''),
    (anon_sym_require, ''require''),
    (anon_sym_return, ''return''),
    (anon_sym_satisfy, ''satisfy''),
    (anon_sym_send, ''send''),
    (anon_sym_snapshot, ''snapshot''),
    (anon_sym_specialization, ''specialization''),
    (anon_sym_specializes, ''specializes''),
    (anon_sym_stakeholder, ''stakeholder''),
    (anon_sym_standard, ''standard''),
    (anon_sym_step, ''step''),
    (anon_sym_struct, ''struct''),
    (anon_sym_subclassifier, ''subclassifier''),
    (anon_sym_subject, ''subject''),
    (anon_sym_subset, ''subset''),
    (anon_sym_subsets, ''subsets''),
    (anon_sym_subtype, ''subtype''),
    (anon_sym_succession, ''succession''),
    (anon_sym_terminate, ''terminate''),
    (anon_sym_then, ''then''),
    (anon_sym_timeslice, ''timeslice''),
    (anon_sym_to, ''to''),
    (anon_sym_transition, ''transition''),
    (anon_sym_typed, ''typed''),
    (anon_sym_typing, ''typing''),
    (anon_sym_unions, ''unions''),
    (anon_sym_until, ''until''),
    (anon_sym_use, ''use''),
    (anon_sym_var, ''var''),
    (anon_sym_variant, ''variant''),
    (anon_sym_variation, ''variation''),
    (anon_sym_verification, ''verification''),
    (anon_sym_verify, ''verify''),
    (anon_sym_via, ''via''),
    (anon_sym_view, ''view''),
    (anon_sym_viewpoint, ''viewpoint''),
    (anon_sym_when, ''when''),
    (anon_sym_while, ''while''),
    (anon_sym_xor, ''xor''),
    (anon_sym_EQ_EQ_EQ, ''===''),
    (anon_sym_BANG_EQ_EQ, ''!==''),
    (anon_sym_QMARK_QMARK, ''??''),
    (anon_sym_EQ_EQ, ''==''),
    (anon_sym_BANG_EQ, ''!=''),
    (anon_sym_AT_AT, ''@@''),
    (anon_sym_LT_EQ, ''<=''),
    (anon_sym_GT_EQ, ''>=''),
    (anon_sym_STAR_STAR, ''**''),
    (anon_sym_PIPE, ''|''),
    (anon_sym_AMP, ''&''),
    (anon_sym_AT, ''@''),
    (anon_sym_LT, ''<''),
    (anon_sym_GT, ''>''),
    (anon_sym_PLUS, ''+''),
    (anon_sym_DASH, ''-''),
    (anon_sym_STAR, ''*''),
    (anon_sym_SLASH, ''/''),
    (anon_sym_PERCENT, ''%''),
    (anon_sym_CARET, ''^''),
    (anon_sym_TILDE, ''~''),
    (sym_comment, ''comment''),
    (sym_source_file, ''source_file''),
    (sym__statement, ''_statement''),
    (sym_block, ''block''),
    (sym_package_decl, ''package_decl''),
    (sym_import_decl, ''import_decl''),
    (sym_part_def, ''part_def''),
    (sym_part_usage, ''part_usage''),
    (sym_attribute_def, ''attribute_def''),
    (sym_attribute_usage, ''attribute_usage''),
    (sym_definition, ''definition''),
    (sym_usage, ''usage''),
    (sym_typing, ''typing''),
    (sym_type_ref, ''type_ref''),
    (sym_qualified_name, ''qualified_name''),
    (aux_sym_source_file_repeat1, ''source_file_repeat1''),
    (aux_sym_qualified_name_repeat1, ''qualified_name_repeat1'')
  ]"
definition ts_symbol_metadata :: "(nat \<times> symbol_metadata) list" where
  "ts_symbol_metadata = [
    (ts_builtin_sym_end, \<lparr>visible = False, named = True\<rparr>),
    (sym_identifier, \<lparr>visible = True, named = True\<rparr>),
    (anon_sym_LBRACE, \<lparr>visible = True, named = False\<rparr>),
    (anon_sym_RBRACE, \<lparr>visible = True, named = False\<rparr>),
    (anon_sym_package, \<lparr>visible = True, named = False\<rparr>),
    (anon_sym_import, \<lparr>visible = True, named = False\<rparr>),
    (anon_sym_SEMI, \<lparr>visible = True, named = False\<rparr>),
    (sym_import_path, \<lparr>visible = True, named = True\<rparr>),
    (anon_sym_part, \<lparr>visible = True, named = False\<rparr>),
    (anon_sym_def, \<lparr>visible = True, named = False\<rparr>),
    (anon_sym_attribute, \<lparr>visible = True, named = False\<rparr>),
    (anon_sym_action, \<lparr>visible = True, named = False\<rparr>),
    (anon_sym_state, \<lparr>visible = True, named = False\<rparr>),
    (anon_sym_interface, \<lparr>visible = True, named = False\<rparr>),
    (anon_sym_port, \<lparr>visible = True, named = False\<rparr>),
    (anon_sym_requirement, \<lparr>visible = True, named = False\<rparr>),
    (anon_sym_constraint, \<lparr>visible = True, named = False\<rparr>),
    (anon_sym_enum, \<lparr>visible = True, named = False\<rparr>),
    (anon_sym_type, \<lparr>visible = True, named = False\<rparr>),
    (anon_sym_COLON, \<lparr>visible = True, named = False\<rparr>),
    (anon_sym_COLON_COLON, \<lparr>visible = True, named = False\<rparr>),
    (sym_string, \<lparr>visible = True, named = True\<rparr>),
    (sym_number, \<lparr>visible = True, named = True\<rparr>),
    (anon_sym_true, \<lparr>visible = True, named = False\<rparr>),
    (anon_sym_false, \<lparr>visible = True, named = False\<rparr>),
    (anon_sym_null, \<lparr>visible = True, named = False\<rparr>),
    (anon_sym_about, \<lparr>visible = True, named = False\<rparr>),
    (anon_sym_abstract, \<lparr>visible = True, named = False\<rparr>),
    (anon_sym_accept, \<lparr>visible = True, named = False\<rparr>),
    (anon_sym_actor, \<lparr>visible = True, named = False\<rparr>),
    (anon_sym_after, \<lparr>visible = True, named = False\<rparr>),
    (anon_sym_alias, \<lparr>visible = True, named = False\<rparr>),
    (anon_sym_all, \<lparr>visible = True, named = False\<rparr>),
    (anon_sym_allocate, \<lparr>visible = True, named = False\<rparr>),
    (anon_sym_allocation, \<lparr>visible = True, named = False\<rparr>),
    (anon_sym_analysis, \<lparr>visible = True, named = False\<rparr>),
    (anon_sym_and, \<lparr>visible = True, named = False\<rparr>),
    (anon_sym_as, \<lparr>visible = True, named = False\<rparr>),
    (anon_sym_assert, \<lparr>visible = True, named = False\<rparr>),
    (anon_sym_assign, \<lparr>visible = True, named = False\<rparr>),
    (anon_sym_assoc, \<lparr>visible = True, named = False\<rparr>),
    (anon_sym_assume, \<lparr>visible = True, named = False\<rparr>),
    (anon_sym_at, \<lparr>visible = True, named = False\<rparr>),
    (anon_sym_behavior, \<lparr>visible = True, named = False\<rparr>),
    (anon_sym_bind, \<lparr>visible = True, named = False\<rparr>),
    (anon_sym_binding, \<lparr>visible = True, named = False\<rparr>),
    (anon_sym_bool, \<lparr>visible = True, named = False\<rparr>),
    (anon_sym_by, \<lparr>visible = True, named = False\<rparr>),
    (anon_sym_calc, \<lparr>visible = True, named = False\<rparr>),
    (anon_sym_case, \<lparr>visible = True, named = False\<rparr>),
    (anon_sym_chains, \<lparr>visible = True, named = False\<rparr>),
    (anon_sym_class, \<lparr>visible = True, named = False\<rparr>),
    (anon_sym_classifier, \<lparr>visible = True, named = False\<rparr>),
    (anon_sym_comment, \<lparr>visible = True, named = False\<rparr>),
    (anon_sym_composite, \<lparr>visible = True, named = False\<rparr>),
    (anon_sym_concern, \<lparr>visible = True, named = False\<rparr>),
    (anon_sym_conjugate, \<lparr>visible = True, named = False\<rparr>),
    (anon_sym_conjugates, \<lparr>visible = True, named = False\<rparr>),
    (anon_sym_conjugation, \<lparr>visible = True, named = False\<rparr>),
    (anon_sym_connect, \<lparr>visible = True, named = False\<rparr>),
    (anon_sym_connection, \<lparr>visible = True, named = False\<rparr>),
    (anon_sym_connector, \<lparr>visible = True, named = False\<rparr>),
    (anon_sym_const, \<lparr>visible = True, named = False\<rparr>),
    (anon_sym_constant, \<lparr>visible = True, named = False\<rparr>),
    (anon_sym_crosses, \<lparr>visible = True, named = False\<rparr>),
    (anon_sym_datatype, \<lparr>visible = True, named = False\<rparr>),
    (anon_sym_decide, \<lparr>visible = True, named = False\<rparr>),
    (anon_sym_default, \<lparr>visible = True, named = False\<rparr>),
    (anon_sym_defined, \<lparr>visible = True, named = False\<rparr>),
    (anon_sym_dependency, \<lparr>visible = True, named = False\<rparr>),
    (anon_sym_derived, \<lparr>visible = True, named = False\<rparr>),
    (anon_sym_differences, \<lparr>visible = True, named = False\<rparr>),
    (anon_sym_disjoining, \<lparr>visible = True, named = False\<rparr>),
    (anon_sym_disjoint, \<lparr>visible = True, named = False\<rparr>),
    (anon_sym_do, \<lparr>visible = True, named = False\<rparr>),
    (anon_sym_doc, \<lparr>visible = True, named = False\<rparr>),
    (anon_sym_else, \<lparr>visible = True, named = False\<rparr>),
    (anon_sym_end, \<lparr>visible = True, named = False\<rparr>),
    (anon_sym_entry, \<lparr>visible = True, named = False\<rparr>),
    (anon_sym_event, \<lparr>visible = True, named = False\<rparr>),
    (anon_sym_exhibit, \<lparr>visible = True, named = False\<rparr>),
    (anon_sym_exit, \<lparr>visible = True, named = False\<rparr>),
    (anon_sym_expose, \<lparr>visible = True, named = False\<rparr>),
    (anon_sym_expr, \<lparr>visible = True, named = False\<rparr>),
    (anon_sym_feature, \<lparr>visible = True, named = False\<rparr>),
    (anon_sym_featured, \<lparr>visible = True, named = False\<rparr>),
    (anon_sym_featuring, \<lparr>visible = True, named = False\<rparr>),
    (anon_sym_filter, \<lparr>visible = True, named = False\<rparr>),
    (anon_sym_first, \<lparr>visible = True, named = False\<rparr>),
    (anon_sym_flow, \<lparr>visible = True, named = False\<rparr>),
    (anon_sym_for, \<lparr>visible = True, named = False\<rparr>),
    (anon_sym_fork, \<lparr>visible = True, named = False\<rparr>),
    (anon_sym_frame, \<lparr>visible = True, named = False\<rparr>),
    (anon_sym_from, \<lparr>visible = True, named = False\<rparr>),
    (anon_sym_function, \<lparr>visible = True, named = False\<rparr>),
    (anon_sym_hastype, \<lparr>visible = True, named = False\<rparr>),
    (anon_sym_if, \<lparr>visible = True, named = False\<rparr>),
    (anon_sym_implies, \<lparr>visible = True, named = False\<rparr>),
    (anon_sym_in, \<lparr>visible = True, named = False\<rparr>),
    (anon_sym_include, \<lparr>visible = True, named = False\<rparr>),
    (anon_sym_individual, \<lparr>visible = True, named = False\<rparr>),
    (anon_sym_inout, \<lparr>visible = True, named = False\<rparr>),
    (anon_sym_interaction, \<lparr>visible = True, named = False\<rparr>),
    (anon_sym_intersects, \<lparr>visible = True, named = False\<rparr>),
    (anon_sym_inv, \<lparr>visible = True, named = False\<rparr>),
    (anon_sym_inverse, \<lparr>visible = True, named = False\<rparr>),
    (anon_sym_inverting, \<lparr>visible = True, named = False\<rparr>),
    (anon_sym_istype, \<lparr>visible = True, named = False\<rparr>),
    (anon_sym_item, \<lparr>visible = True, named = False\<rparr>),
    (anon_sym_join, \<lparr>visible = True, named = False\<rparr>),
    (anon_sym_language, \<lparr>visible = True, named = False\<rparr>),
    (anon_sym_library, \<lparr>visible = True, named = False\<rparr>),
    (anon_sym_locale, \<lparr>visible = True, named = False\<rparr>),
    (anon_sym_loop, \<lparr>visible = True, named = False\<rparr>),
    (anon_sym_member, \<lparr>visible = True, named = False\<rparr>),
    (anon_sym_merge, \<lparr>visible = True, named = False\<rparr>),
    (anon_sym_message, \<lparr>visible = True, named = False\<rparr>),
    (anon_sym_meta, \<lparr>visible = True, named = False\<rparr>),
    (anon_sym_metaclass, \<lparr>visible = True, named = False\<rparr>),
    (anon_sym_metadata, \<lparr>visible = True, named = False\<rparr>),
    (anon_sym_multiplicity, \<lparr>visible = True, named = False\<rparr>),
    (anon_sym_namespace, \<lparr>visible = True, named = False\<rparr>),
    (anon_sym_new, \<lparr>visible = True, named = False\<rparr>),
    (anon_sym_nonunique, \<lparr>visible = True, named = False\<rparr>),
    (anon_sym_not, \<lparr>visible = True, named = False\<rparr>),
    (anon_sym_objective, \<lparr>visible = True, named = False\<rparr>),
    (anon_sym_occurrence, \<lparr>visible = True, named = False\<rparr>),
    (anon_sym_of, \<lparr>visible = True, named = False\<rparr>),
    (anon_sym_or, \<lparr>visible = True, named = False\<rparr>),
    (anon_sym_ordered, \<lparr>visible = True, named = False\<rparr>),
    (anon_sym_out, \<lparr>visible = True, named = False\<rparr>),
    (anon_sym_parallel, \<lparr>visible = True, named = False\<rparr>),
    (anon_sym_perform, \<lparr>visible = True, named = False\<rparr>),
    (anon_sym_portion, \<lparr>visible = True, named = False\<rparr>),
    (anon_sym_predicate, \<lparr>visible = True, named = False\<rparr>),
    (anon_sym_private, \<lparr>visible = True, named = False\<rparr>),
    (anon_sym_protected, \<lparr>visible = True, named = False\<rparr>),
    (anon_sym_public, \<lparr>visible = True, named = False\<rparr>),
    (anon_sym_readonly, \<lparr>visible = True, named = False\<rparr>),
    (anon_sym_redefines, \<lparr>visible = True, named = False\<rparr>),
    (anon_sym_redefinition, \<lparr>visible = True, named = False\<rparr>),
    (anon_sym_ref, \<lparr>visible = True, named = False\<rparr>),
    (anon_sym_references, \<lparr>visible = True, named = False\<rparr>),
    (anon_sym_render, \<lparr>visible = True, named = False\<rparr>),
    (anon_sym_rendering, \<lparr>visible = True, named = False\<rparr>),
    (anon_sym_rep, \<lparr>visible = True, named = False\<rparr>),
    (anon_sym_require, \<lparr>visible = True, named = False\<rparr>),
    (anon_sym_return, \<lparr>visible = True, named = False\<rparr>),
    (anon_sym_satisfy, \<lparr>visible = True, named = False\<rparr>),
    (anon_sym_send, \<lparr>visible = True, named = False\<rparr>),
    (anon_sym_snapshot, \<lparr>visible = True, named = False\<rparr>),
    (anon_sym_specialization, \<lparr>visible = True, named = False\<rparr>),
    (anon_sym_specializes, \<lparr>visible = True, named = False\<rparr>),
    (anon_sym_stakeholder, \<lparr>visible = True, named = False\<rparr>),
    (anon_sym_standard, \<lparr>visible = True, named = False\<rparr>),
    (anon_sym_step, \<lparr>visible = True, named = False\<rparr>),
    (anon_sym_struct, \<lparr>visible = True, named = False\<rparr>),
    (anon_sym_subclassifier, \<lparr>visible = True, named = False\<rparr>),
    (anon_sym_subject, \<lparr>visible = True, named = False\<rparr>),
    (anon_sym_subset, \<lparr>visible = True, named = False\<rparr>),
    (anon_sym_subsets, \<lparr>visible = True, named = False\<rparr>),
    (anon_sym_subtype, \<lparr>visible = True, named = False\<rparr>),
    (anon_sym_succession, \<lparr>visible = True, named = False\<rparr>),
    (anon_sym_terminate, \<lparr>visible = True, named = False\<rparr>),
    (anon_sym_then, \<lparr>visible = True, named = False\<rparr>),
    (anon_sym_timeslice, \<lparr>visible = True, named = False\<rparr>),
    (anon_sym_to, \<lparr>visible = True, named = False\<rparr>),
    (anon_sym_transition, \<lparr>visible = True, named = False\<rparr>),
    (anon_sym_typed, \<lparr>visible = True, named = False\<rparr>),
    (anon_sym_typing, \<lparr>visible = True, named = False\<rparr>),
    (anon_sym_unions, \<lparr>visible = True, named = False\<rparr>),
    (anon_sym_until, \<lparr>visible = True, named = False\<rparr>),
    (anon_sym_use, \<lparr>visible = True, named = False\<rparr>),
    (anon_sym_var, \<lparr>visible = True, named = False\<rparr>),
    (anon_sym_variant, \<lparr>visible = True, named = False\<rparr>),
    (anon_sym_variation, \<lparr>visible = True, named = False\<rparr>),
    (anon_sym_verification, \<lparr>visible = True, named = False\<rparr>),
    (anon_sym_verify, \<lparr>visible = True, named = False\<rparr>),
    (anon_sym_via, \<lparr>visible = True, named = False\<rparr>),
    (anon_sym_view, \<lparr>visible = True, named = False\<rparr>),
    (anon_sym_viewpoint, \<lparr>visible = True, named = False\<rparr>),
    (anon_sym_when, \<lparr>visible = True, named = False\<rparr>),
    (anon_sym_while, \<lparr>visible = True, named = False\<rparr>),
    (anon_sym_xor, \<lparr>visible = True, named = False\<rparr>),
    (anon_sym_EQ_EQ_EQ, \<lparr>visible = True, named = False\<rparr>),
    (anon_sym_BANG_EQ_EQ, \<lparr>visible = True, named = False\<rparr>),
    (anon_sym_QMARK_QMARK, \<lparr>visible = True, named = False\<rparr>),
    (anon_sym_EQ_EQ, \<lparr>visible = True, named = False\<rparr>),
    (anon_sym_BANG_EQ, \<lparr>visible = True, named = False\<rparr>),
    (anon_sym_AT_AT, \<lparr>visible = True, named = False\<rparr>),
    (anon_sym_LT_EQ, \<lparr>visible = True, named = False\<rparr>),
    (anon_sym_GT_EQ, \<lparr>visible = True, named = False\<rparr>),
    (anon_sym_STAR_STAR, \<lparr>visible = True, named = False\<rparr>),
    (anon_sym_PIPE, \<lparr>visible = True, named = False\<rparr>),
    (anon_sym_AMP, \<lparr>visible = True, named = False\<rparr>),
    (anon_sym_AT, \<lparr>visible = True, named = False\<rparr>),
    (anon_sym_LT, \<lparr>visible = True, named = False\<rparr>),
    (anon_sym_GT, \<lparr>visible = True, named = False\<rparr>),
    (anon_sym_PLUS, \<lparr>visible = True, named = False\<rparr>),
    (anon_sym_DASH, \<lparr>visible = True, named = False\<rparr>),
    (anon_sym_STAR, \<lparr>visible = True, named = False\<rparr>),
    (anon_sym_SLASH, \<lparr>visible = True, named = False\<rparr>),
    (anon_sym_PERCENT, \<lparr>visible = True, named = False\<rparr>),
    (anon_sym_CARET, \<lparr>visible = True, named = False\<rparr>),
    (anon_sym_TILDE, \<lparr>visible = True, named = False\<rparr>),
    (sym_comment, \<lparr>visible = True, named = True\<rparr>),
    (sym_source_file, \<lparr>visible = True, named = True\<rparr>),
    (sym__statement, \<lparr>visible = False, named = True\<rparr>),
    (sym_block, \<lparr>visible = True, named = True\<rparr>),
    (sym_package_decl, \<lparr>visible = True, named = True\<rparr>),
    (sym_import_decl, \<lparr>visible = True, named = True\<rparr>),
    (sym_part_def, \<lparr>visible = True, named = True\<rparr>),
    (sym_part_usage, \<lparr>visible = True, named = True\<rparr>),
    (sym_attribute_def, \<lparr>visible = True, named = True\<rparr>),
    (sym_attribute_usage, \<lparr>visible = True, named = True\<rparr>),
    (sym_definition, \<lparr>visible = True, named = True\<rparr>),
    (sym_usage, \<lparr>visible = True, named = True\<rparr>),
    (sym_typing, \<lparr>visible = True, named = True\<rparr>),
    (sym_type_ref, \<lparr>visible = True, named = True\<rparr>),
    (sym_qualified_name, \<lparr>visible = True, named = True\<rparr>),
    (aux_sym_source_file_repeat1, \<lparr>visible = False, named = False\<rparr>),
    (aux_sym_qualified_name_repeat1, \<lparr>visible = False, named = False\<rparr>)
  ]"

subsection \<open>The main lexing function\<close>

text \<open>
  One case of the \<^verbatim>\<open>switch (state)\<close> in \<^verbatim>\<open>ts_lex\<close> either accepts a token
  (\<^verbatim>\<open>ACCEPT_TOKEN\<close>, always the first statement of the case) or not, and then runs a
  chain of tests on \<^verbatim>\<open>eof\<close> and \<^verbatim>\<open>lookahead\<close>, each leaving the case with
  \<^verbatim>\<open>ADVANCE\<close> or \<^verbatim>\<open>SKIP\<close>; \<^verbatim>\<open>END_STATE\<close> closes the case. The \<^verbatim>\<open>default\<close>
  case is \<^verbatim>\<open>return false\<close>.
\<close>

datatype lex_move = ADVANCE nat | SKIP nat | END_STATE | RETURN_FALSE

definition ts_lex_state :: "nat \<Rightarrow> bool \<Rightarrow> char \<Rightarrow> nat option \<times> lex_move" where
  "ts_lex_state state eof lookahead =
  (if state = 0 then (None,
        if eof then ADVANCE 14 else
        if lookahead = CHR ''!'' then ADVANCE 7 else
        if lookahead = CHR 0x22 then ADVANCE 1 else
        if lookahead = CHR ''%'' then ADVANCE 49 else
        if lookahead = CHR ''&'' then ADVANCE 41 else
        if lookahead = CHR ''*'' then ADVANCE 47 else
        if lookahead = CHR ''+'' then ADVANCE 45 else
        if lookahead = CHR ''-'' then ADVANCE 46 else
        if lookahead = CHR ''/'' then ADVANCE 48 else
        if lookahead = CHR '':'' then ADVANCE 25 else
        if lookahead = CHR '';'' then ADVANCE 17 else
        if lookahead = CHR ''<'' then ADVANCE 43 else
        if lookahead = CHR ''='' then ADVANCE 8 else
        if lookahead = CHR ''>'' then ADVANCE 44 else
        if lookahead = CHR ''?'' then ADVANCE 9 else
        if lookahead = CHR ''@'' then ADVANCE 42 else
        if lookahead = CHR ''^'' then ADVANCE 50 else
        if lookahead = CHR ''{'' then ADVANCE 15 else
        if lookahead = CHR ''|'' then ADVANCE 40 else
        if lookahead = CHR ''}'' then ADVANCE 16 else
        if lookahead = CHR ''~'' then ADVANCE 51 else
        if (CHR 0x09 \<le> lookahead \<and> lookahead \<le> CHR 0x0D) \<or> lookahead = CHR '' '' then SKIP 0 else
        if (CHR ''0'' \<le> lookahead \<and> lookahead \<le> CHR ''9'') then ADVANCE 29 else
        if (CHR ''A'' \<le> lookahead \<and> lookahead \<le> CHR ''Z'') \<or> lookahead = CHR ''_'' \<or> (CHR ''a'' \<le> lookahead \<and> lookahead \<le> CHR ''z'') then ADVANCE 27 else
        END_STATE)
     else if state = 1 then (None,
        if lookahead = CHR 0x22 then ADVANCE 28 else
        if lookahead = CHR 0x5C then ADVANCE 11 else
        if lookahead \<noteq> CHR 0x00 then ADVANCE 1 else
        END_STATE)
     else if state = 2 then (None,
        if lookahead = CHR ''*'' then ADVANCE 4 else
        if lookahead = CHR ''/'' then ADVANCE 53 else
        END_STATE)
     else if state = 3 then (None,
        if lookahead = CHR ''*'' then ADVANCE 3 else
        if lookahead = CHR ''/'' then ADVANCE 52 else
        if lookahead \<noteq> CHR 0x00 then ADVANCE 4 else
        END_STATE)
     else if state = 4 then (None,
        if lookahead = CHR ''*'' then ADVANCE 3 else
        if lookahead \<noteq> CHR 0x00 then ADVANCE 4 else
        END_STATE)
     else if state = 5 then (None,
        if lookahead = CHR ''/'' then ADVANCE 19 else
        if (CHR 0x09 \<le> lookahead \<and> lookahead \<le> CHR 0x0D) \<or> lookahead = CHR '' '' then ADVANCE 22 else
        if lookahead \<noteq> CHR 0x00 \<and> lookahead \<noteq> CHR '';'' then ADVANCE 23 else
        END_STATE)
     else if state = 6 then (None,
        if lookahead = CHR '':'' then ADVANCE 26 else
        END_STATE)
     else if state = 7 then (None,
        if lookahead = CHR ''='' then ADVANCE 35 else
        END_STATE)
     else if state = 8 then (None,
        if lookahead = CHR ''='' then ADVANCE 34 else
        END_STATE)
     else if state = 9 then (None,
        if lookahead = CHR ''?'' then ADVANCE 33 else
        END_STATE)
     else if state = 10 then (None,
        if (CHR ''0'' \<le> lookahead \<and> lookahead \<le> CHR ''9'') then ADVANCE 30 else
        END_STATE)
     else if state = 11 then (None,
        if lookahead \<noteq> CHR 0x00 \<and> lookahead \<noteq> CHR 0x0A then ADVANCE 1 else
        END_STATE)
     else if state = 12 then (None,
        if eof then ADVANCE 14 else
        if lookahead = CHR ''/'' then ADVANCE 2 else
        if lookahead = CHR '':'' then ADVANCE 24 else
        if lookahead = CHR '';'' then ADVANCE 17 else
        if lookahead = CHR ''{'' then ADVANCE 15 else
        if lookahead = CHR ''}'' then ADVANCE 16 else
        if (CHR 0x09 \<le> lookahead \<and> lookahead \<le> CHR 0x0D) \<or> lookahead = CHR '' '' then SKIP 12 else
        if (CHR ''A'' \<le> lookahead \<and> lookahead \<le> CHR ''Z'') \<or> lookahead = CHR ''_'' \<or> (CHR ''a'' \<le> lookahead \<and> lookahead \<le> CHR ''z'') then ADVANCE 27 else
        END_STATE)
     else if state = 13 then (None,
        if eof then ADVANCE 14 else
        if lookahead = CHR ''/'' then ADVANCE 2 else
        if lookahead = CHR '':'' then ADVANCE 6 else
        if lookahead = CHR '';'' then ADVANCE 17 else
        if lookahead = CHR ''{'' then ADVANCE 15 else
        if lookahead = CHR ''}'' then ADVANCE 16 else
        if (CHR 0x09 \<le> lookahead \<and> lookahead \<le> CHR 0x0D) \<or> lookahead = CHR '' '' then SKIP 13 else
        if (CHR ''A'' \<le> lookahead \<and> lookahead \<le> CHR ''Z'') \<or> lookahead = CHR ''_'' \<or> (CHR ''a'' \<le> lookahead \<and> lookahead \<le> CHR ''z'') then ADVANCE 27 else
        END_STATE)
     else if state = 14 then (Some ts_builtin_sym_end,
        END_STATE)
     else if state = 15 then (Some anon_sym_LBRACE,
        END_STATE)
     else if state = 16 then (Some anon_sym_RBRACE,
        END_STATE)
     else if state = 17 then (Some anon_sym_SEMI,
        END_STATE)
     else if state = 18 then (Some sym_import_path,
        if lookahead = CHR 0x0A then ADVANCE 23 else
        if lookahead = CHR '';'' then ADVANCE 53 else
        if lookahead \<noteq> CHR 0x00 then ADVANCE 18 else
        END_STATE)
     else if state = 19 then (Some sym_import_path,
        if lookahead = CHR ''*'' then ADVANCE 21 else
        if lookahead = CHR ''/'' then ADVANCE 18 else
        if lookahead \<noteq> CHR 0x00 \<and> lookahead \<noteq> CHR '';'' then ADVANCE 23 else
        END_STATE)
     else if state = 20 then (Some sym_import_path,
        if lookahead = CHR ''*'' then ADVANCE 20 else
        if lookahead = CHR ''/'' then ADVANCE 23 else
        if lookahead = CHR '';'' then ADVANCE 4 else
        if lookahead \<noteq> CHR 0x00 then ADVANCE 21 else
        END_STATE)
     else if state = 21 then (Some sym_import_path,
        if lookahead = CHR ''*'' then ADVANCE 20 else
        if lookahead = CHR '';'' then ADVANCE 4 else
        if lookahead \<noteq> CHR 0x00 then ADVANCE 21 else
        END_STATE)
     else if state = 22 then (Some sym_import_path,
        if lookahead = CHR ''/'' then ADVANCE 19 else
        if (CHR 0x09 \<le> lookahead \<and> lookahead \<le> CHR 0x0D) \<or> lookahead = CHR '' '' then ADVANCE 22 else
        if lookahead \<noteq> CHR 0x00 \<and> lookahead \<noteq> CHR '';'' then ADVANCE 23 else
        END_STATE)
     else if state = 23 then (Some sym_import_path,
        if lookahead \<noteq> CHR 0x00 \<and> lookahead \<noteq> CHR '';'' then ADVANCE 23 else
        END_STATE)
     else if state = 24 then (Some anon_sym_COLON,
        END_STATE)
     else if state = 25 then (Some anon_sym_COLON,
        if lookahead = CHR '':'' then ADVANCE 26 else
        END_STATE)
     else if state = 26 then (Some anon_sym_COLON_COLON,
        END_STATE)
     else if state = 27 then (Some sym_identifier,
        if (CHR ''0'' \<le> lookahead \<and> lookahead \<le> CHR ''9'') \<or> (CHR ''A'' \<le> lookahead \<and> lookahead \<le> CHR ''Z'') \<or> lookahead = CHR ''_'' \<or> (CHR ''a'' \<le> lookahead \<and> lookahead \<le> CHR ''z'') then ADVANCE 27 else
        END_STATE)
     else if state = 28 then (Some sym_string,
        END_STATE)
     else if state = 29 then (Some sym_number,
        if lookahead = CHR ''.'' then ADVANCE 10 else
        if (CHR ''0'' \<le> lookahead \<and> lookahead \<le> CHR ''9'') then ADVANCE 29 else
        END_STATE)
     else if state = 30 then (Some sym_number,
        if (CHR ''0'' \<le> lookahead \<and> lookahead \<le> CHR ''9'') then ADVANCE 30 else
        END_STATE)
     else if state = 31 then (Some anon_sym_EQ_EQ_EQ,
        END_STATE)
     else if state = 32 then (Some anon_sym_BANG_EQ_EQ,
        END_STATE)
     else if state = 33 then (Some anon_sym_QMARK_QMARK,
        END_STATE)
     else if state = 34 then (Some anon_sym_EQ_EQ,
        if lookahead = CHR ''='' then ADVANCE 31 else
        END_STATE)
     else if state = 35 then (Some anon_sym_BANG_EQ,
        if lookahead = CHR ''='' then ADVANCE 32 else
        END_STATE)
     else if state = 36 then (Some anon_sym_AT_AT,
        END_STATE)
     else if state = 37 then (Some anon_sym_LT_EQ,
        END_STATE)
     else if state = 38 then (Some anon_sym_GT_EQ,
        END_STATE)
     else if state = 39 then (Some anon_sym_STAR_STAR,
        END_STATE)
     else if state = 40 then (Some anon_sym_PIPE,
        END_STATE)
     else if state = 41 then (Some anon_sym_AMP,
        END_STATE)
     else if state = 42 then (Some anon_sym_AT,
        if lookahead = CHR ''@'' then ADVANCE 36 else
        END_STATE)
     else if state = 43 then (Some anon_sym_LT,
        if lookahead = CHR ''='' then ADVANCE 37 else
        END_STATE)
     else if state = 44 then (Some anon_sym_GT,
        if lookahead = CHR ''='' then ADVANCE 38 else
        END_STATE)
     else if state = 45 then (Some anon_sym_PLUS,
        END_STATE)
     else if state = 46 then (Some anon_sym_DASH,
        END_STATE)
     else if state = 47 then (Some anon_sym_STAR,
        if lookahead = CHR ''*'' then ADVANCE 39 else
        END_STATE)
     else if state = 48 then (Some anon_sym_SLASH,
        if lookahead = CHR ''*'' then ADVANCE 4 else
        if lookahead = CHR ''/'' then ADVANCE 53 else
        END_STATE)
     else if state = 49 then (Some anon_sym_PERCENT,
        END_STATE)
     else if state = 50 then (Some anon_sym_CARET,
        END_STATE)
     else if state = 51 then (Some anon_sym_TILDE,
        END_STATE)
     else if state = 52 then (Some sym_comment,
        END_STATE)
     else if state = 53 then (Some sym_comment,
        if lookahead \<noteq> CHR 0x00 \<and> lookahead \<noteq> CHR 0x0A then ADVANCE 53 else
        END_STATE)
   else (None, RETURN_FALSE))"

subsection \<open>The lexer loop\<close>

text \<open>
  Modelled from the spec: the macros \<^verbatim>\<open>START_LEXER\<close>, \<^verbatim>\<open>ADVANCE\<close>,
  \<^verbatim>\<open>SKIP\<close>, \<^verbatim>\<open>ACCEPT_TOKEN\<close> and \<^verbatim>\<open>END_STATE\<close> and the \<^verbatim>\<open>TSLexer\<close>
  callbacks they call (\<^verbatim>\<open>lookahead\<close>, \<^verbatim>\<open>eof\<close>, \<^verbatim>\<open>advance\<close>,
  \<^verbatim>\<open>mark_end\<close>) are declared in \<^verbatim>\<open>tree_sitter/parser.h\<close>, which is not under
  \<^verbatim>\<open>src/\<close>. Section 4.1 of the spec gives their contract: the automaton is run
  character by character from the requested start state, the result is the last
  accepted (longest-match) token with its consumed span, and the scan fails when it
  stops without having passed an accepting state.

  \<^item> \<^verbatim>\<open>START_LEXER\<close> opens a loop: each round reads \<^verbatim>\<open>lookahead\<close> (0 at the end
    of the input) and \<^verbatim>\<open>eof\<close>, and runs the case of the current state.
  \<^item> \<^verbatim>\<open>ACCEPT_TOKEN(s)\<close> sets the result symbol to \<^verbatim>\<open>s\<close> and marks the end of
    the token at the current position.
  \<^item> \<^verbatim>\<open>ADVANCE(n)\<close> consumes the lookahead character and continues in state
    \<^verbatim>\<open>n\<close>; \<^verbatim>\<open>SKIP(n)\<close> does the same and moves the start of the token behind the
    consumed character. At the end of the input nothing is consumed.
  \<^item> \<^verbatim>\<open>END_STATE\<close> returns: the marked token if one was accepted, failure otherwise.

  The loop has no bound of its own (an automaton could advance forever at the end of
  the input), so it is a partial function: \<open>None\<close> is a scan that does not return,
  \<open>Some None\<close> a scan that returns false, \<open>Some (Some (s, b, e))\<close> the token with
  symbol \<open>s\<close> spanning the characters \<open>b..<e\<close>. The arguments are the state function,
  the state, the input that is left, its position, the start of the token and the
  last mark.
\<close>

type_synonym token = "nat \<times> nat \<times> nat"

partial_function (option) lex_loop ::
  "(nat \<Rightarrow> bool \<Rightarrow> char \<Rightarrow> nat option \<times> lex_move) \<Rightarrow> nat \<Rightarrow> string \<Rightarrow> nat \<Rightarrow> nat
     \<Rightarrow> (nat \<times> nat) option \<Rightarrow> token option option" where
  "lex_loop lex_state state inp pos tok_start marked =
     (let eof = (inp = []);
          lookahead = (case inp of [] \<Rightarrow> CHR 0x00 | c # _ \<Rightarrow> c);
          accept = fst (lex_state state eof lookahead);
          move = snd (lex_state state eof lookahead);
          marked' = (case accept of Some s \<Rightarrow> Some (s, pos) | None \<Rightarrow> marked);
          pos' = (if eof then pos else pos + 1)
      in case move of
           ADVANCE n \<Rightarrow> lex_loop lex_state n (tl inp) pos' tok_start marked'
         | SKIP n \<Rightarrow> lex_loop lex_state n (tl inp) pos' pos' marked'
         | END_STATE \<Rightarrow>
             Some (case marked' of Some (s, e) \<Rightarrow> Some (s, tok_start, e) | None \<Rightarrow> None)
         | RETURN_FALSE \<Rightarrow> Some None)"

declare lex_loop.simps [code]

definition ts_lex :: "nat \<Rightarrow> string \<Rightarrow> token option option" where
  "ts_lex state inp = lex_loop ts_lex_state state inp 0 0 None"


subsection \<open>Stepping the lexer loop\<close>

text \<open>One round of the loop on a non-empty input, and one round at the end of the input.\<close>

lemma lex_loop_Cons:
  "lex_loop f s (c # cs) pos b m =
     (case snd (f s False c) of
        ADVANCE n \<Rightarrow>
          lex_loop f n cs (Suc pos) b (case fst (f s False c) of Some k \<Rightarrow> Some (k, pos) | None \<Rightarrow> m)
      | SKIP n \<Rightarrow>
          lex_loop f n cs (Suc pos) (Suc pos) (case fst (f s False c) of Some k \<Rightarrow> Some (k, pos) | None \<Rightarrow> m)
      | END_STATE \<Rightarrow>
          Some (case (case fst (f s False c) of Some k \<Rightarrow> Some (k, pos) | None \<Rightarrow> m) of
                  Some (k, e) \<Rightarrow> Some (k, b, e) | None \<Rightarrow> None)
      | RETURN_FALSE \<Rightarrow> Some None)"
  by (subst lex_loop.simps) (simp add: Let_def split: lex_move.split)

lemma lex_loop_Nil:
  "lex_loop f s [] pos b m =
     (case snd (f s True (CHR 0x00)) of
        ADVANCE n \<Rightarrow>
          lex_loop f n [] pos b (case fst (f s True (CHR 0x00)) of Some k \<Rightarrow> Some (k, pos) | None \<Rightarrow> m)
      | SKIP n \<Rightarrow>
          lex_loop f n [] pos pos (case fst (f s True (CHR 0x00)) of Some k \<Rightarrow> Some (k, pos) | None \<Rightarrow> m)
      | END_STATE \<Rightarrow>
          Some (case (case fst (f s True (CHR 0x00)) of Some k \<Rightarrow> Some (k, pos) | None \<Rightarrow> m) of
                  Some (k, e) \<Rightarrow> Some (k, b, e) | None \<Rightarrow> None)
      | RETURN_FALSE \<Rightarrow> Some None)"
  by (subst lex_loop.simps) (simp add: Let_def split: lex_move.split)


section \<open>String literals\<close>

text \<open>
  A string literal is lexed by three cases of \<^verbatim>\<open>ts_lex\<close>: case 1 (inside the
  literal), case 11 (behind a backslash) and case 28 (behind the closing quote, where
  \<^verbatim>\<open>sym_string\<close> is accepted). Only case 0 enters case 1, on a double quote.
\<close>

lemma ts_lex_state_0_quote: "ts_lex_state 0 False (CHR 0x22) = (None, ADVANCE (Suc 0))"
  by (simp add: ts_lex_state_def)

lemma ts_lex_state_1:
  "ts_lex_state (Suc 0) eof c =
     (None, if c = CHR 0x22 then ADVANCE 28 else if c = CHR 0x5C then ADVANCE 11
            else if c \<noteq> CHR 0x00 then ADVANCE (Suc 0) else END_STATE)"
  by (simp add: ts_lex_state_def)

lemma ts_lex_state_11:
  "ts_lex_state 11 eof c =
     (None, if c \<noteq> CHR 0x00 \<and> c \<noteq> CHR 0x0A then ADVANCE (Suc 0) else END_STATE)"
  by (simp add: ts_lex_state_def)


text \<open>
  \<open>unterminated body\<close>: the text \<open>body\<close> behind an opening quote runs to the end of the
  input without an unescaped quote, a backslash escaping the character behind it.
\<close>

fun unterminated :: "string \<Rightarrow> bool" where
  "unterminated [] = True"
| "unterminated (c # cs) =
     (if c = CHR 0x22 then False
      else if c = CHR 0x5C then (case cs of [] \<Rightarrow> True | _ # ds \<Rightarrow> unterminated ds)
      else unterminated cs)"


lemma unterminated_fails:
  "unterminated body \<Longrightarrow> lex_loop ts_lex_state (Suc 0) body pos b None = Some None"
proof (induction body arbitrary: pos rule: unterminated.induct)
  case 1
  show ?case by (simp add: lex_loop_Nil ts_lex_state_1)
next
  case (2 c cs)
  show ?case
  proof (cases "c = CHR 0x5C")
    case True
    show ?thesis
    proof (cases cs)
      case Nil
      with True show ?thesis
        by (simp add: lex_loop_Cons lex_loop_Nil ts_lex_state_1 ts_lex_state_11)
    next
      case (Cons d ds)
      with True 2 show ?thesis
        by (simp add: lex_loop_Cons ts_lex_state_1 ts_lex_state_11)
    qed
  next
    case False
    with 2 show ?thesis
      by (simp add: lex_loop_Cons ts_lex_state_1 split: if_splits)
  qed
qed


text \<open>
  Claim C10. When a string literal is opened by a double quote and the input ends
  before an unescaped closing quote, the scan of the main lexer returns false: no
  token is accepted, in particular no truncated string token. (\<open>Some None\<close> is the
  scan that returns false; what the parser does with it is the runtime's part.)
\<close>

theorem unterminated_string_no_token:
  "unterminated body \<Longrightarrow> ts_lex 0 (CHR 0x22 # body) = Some None"
  by (simp add: ts_lex_def lex_loop_Cons ts_lex_state_0_quote unterminated_fails)

theorem unterminated_string_no_token_witness:
  "unterminated ''abc'' \<and> ts_lex 0 (CHR 0x22 # ''abc'') = Some None"
  using unterminated_string_no_token [of "''abc''"] by simp





section \<open>Comments\<close>
















section \<open>The import payload\<close>











lemma white_not_terminator:
  "(CHR 0x09 \<le> c \<and> c \<le> CHR 0x0D) \<or> c = CHR '' '' \<Longrightarrow> c \<noteq> CHR '';'' \<and> c \<noteq> CHR 0x00"
  by (auto simp add: less_eq_char_def)








section \<open>Operators\<close>

text \<open>
  The operators and punctuation marks of the grammar are its anonymous terminals whose
  text does not start like an identifier: the rows of \<^verbatim>\<open>ts_symbol_names\<close> that are
  visible and not named in \<^verbatim>\<open>ts_symbol_metadata\<close> and whose name starts with a
  character other than a letter or underscore. The reserved words are the other
  anonymous terminals.
\<close>

definition identifier_start :: "char \<Rightarrow> bool" where
  "identifier_start c \<longleftrightarrow>
     (CHR ''A'' \<le> c \<and> c \<le> CHR ''Z'') \<or> c = CHR ''_'' \<or> (CHR ''a'' \<le> c \<and> c \<le> CHR ''z'')"

definition anonymous_terminals :: "(string \<times> nat) list" where
  "anonymous_terminals =
     map (\<lambda>((k, name), (k', md)). (name, k))
       (filter (\<lambda>((k, name), (k', md)). k = k' \<and> k < TOKEN_COUNT \<and> visible md \<and> \<not> named md)
          (zip ts_symbol_names ts_symbol_metadata))"


definition reserved_words :: "(string \<times> nat) list" where
  "reserved_words = filter (\<lambda>(name, k). identifier_start (hd name)) anonymous_terminals"


















end
